theory Spec2Isabelle
  imports Main
begin

section \<open>Data model of the later revision of main.go\<close>

text \<open>
  The source file holds two revisions of the game one after the other; the embedding
  follows the later, complete one (structs from line 424, functions from line 490).
  Go's \<open>int\<close> is modelled as \<open>int\<close>: rows and columns are bounded by the size of the
  maze, and score, lives and the dot counter change by at most ten per tick, so no value
  comes near the 64-bit range.  Strings are byte lists, as Go indexes them.
\<close>

record sprite =
  row :: int
  col :: int
  startRow :: int
  startCol :: int

text \<open>
  \<open>GhostStatus\<close> is a string type in the source; only its two constants are ever
  assigned, so it is an enumeration here.
\<close>

datatype GhostStatus = GhostStatusNormal | GhostStatusBlue

record ghost =
  position :: sprite
  status :: GhostStatus

text \<open>
  What ends a run of the program other than the loop's own \<open>break\<close>: an index out of
  range panics, and taking the write lock of \<open>ghostStatusMx\<close> while the same goroutine
  still holds a read lock blocks for ever.  \<open>NotEnabled\<close> is the answer of a step of a
  goroutine or of the runtime that cannot be taken in the state at hand.
\<close>

datatype error = IndexOutOfRange | NilDereference | Deadlock | OpenFailed | NotEnabled

section \<open>Movement resolution\<close>

text \<open>\<open>maze[r][c]\<close>: both indexings panic out of range.\<close>

definition cellAt :: "string list \<Rightarrow> int \<Rightarrow> int \<Rightarrow> error + char" where
  "cellAt mz r c =
     (if 0 \<le> r \<and> r < int (length mz)
      then (if 0 \<le> c \<and> c < int (length (mz ! nat r))
            then Inr ((mz ! nat r) ! nat c)
            else Inl IndexOutOfRange)
      else Inl IndexOutOfRange)"

text \<open>
  The \<open>switch dir\<close> of \<open>makeMove\<close>: the candidate position with circular movement.
  \<open>len(maze[0])\<close> panics on an empty maze; any other string leaves the position as it
  is.
\<close>

definition makeMove_wrap :: "string list \<Rightarrow> int \<Rightarrow> int \<Rightarrow> string \<Rightarrow> error + (int \<times> int)" where
  "makeMove_wrap mz oldRow oldCol dir =
     (if dir = ''UP'' then
        (let newRow = oldRow - 1
         in Inr (if newRow < 0 then int (length mz) - 1 else newRow, oldCol))
      else if dir = ''DOWN'' then
        (let newRow = oldRow + 1
         in Inr (if newRow = int (length mz) then 0 else newRow, oldCol))
      else if dir = ''RIGHT'' then
        (let newCol = oldCol + 1
         in if mz = [] then Inl IndexOutOfRange
            else Inr (oldRow, if newCol = int (length (mz ! 0)) then 0 else newCol))
      else if dir = ''LEFT'' then
        (let newCol = oldCol - 1
         in if newCol < 0
            then (if mz = [] then Inl IndexOutOfRange
                  else Inr (oldRow, int (length (mz ! 0)) - 1))
            else Inr (oldRow, newCol))
      else Inr (oldRow, oldCol))"

text \<open>\<open>makeMove\<close>: the candidate, or the old position when the candidate is a wall.\<close>

definition makeMove :: "string list \<Rightarrow> int \<Rightarrow> int \<Rightarrow> string \<Rightarrow> error + (int \<times> int)" where
  "makeMove mz oldRow oldCol dir =
     (case makeMove_wrap mz oldRow oldCol dir of
        Inl e \<Rightarrow> Inl e
      | Inr (newRow, newCol) \<Rightarrow>
          (case cellAt mz newRow newCol of
             Inl e \<Rightarrow> Inl e
           | Inr ch \<Rightarrow> Inr (if ch = CHR ''#'' then (oldRow, oldCol) else (newRow, newCol))))"

text \<open>A position is within the grid; all rows are as long as the first.\<close>

definition inBounds :: "string list \<Rightarrow> int \<Rightarrow> int \<Rightarrow> bool" where
  "inBounds mz r c \<longleftrightarrow> 0 \<le> r \<and> r < int (length mz) \<and> 0 \<le> c \<and> c < int (length (hd mz))"

definition rectangular :: "string list \<Rightarrow> bool" where
  "rectangular mz \<longleftrightarrow> list_all (\<lambda>line. length line = length (hd mz)) mz"

definition fourDirections :: "string list" where
  "fourDirections = [''UP'', ''DOWN'', ''RIGHT'', ''LEFT'']"

section \<open>Global state\<close>

text \<open>
  The package-level variables, and what the calls into the runtime leave behind:
  \<open>readLocks\<close> counts the read locks of \<open>ghostStatusMx\<close> that the simulation loop
  holds, \<open>slept\<close> the milliseconds spent in \<open>time.Sleep\<close>.  \<open>timers\<close> has one
  entry per timer made by \<open>time.NewTimer\<close>, and \<open>pillTimer\<close> points into it.
  \<open>pillTasks\<close> has one entry per \<open>processPill\<close> goroutine started with \<open>go\<close>:
  where that goroutine stands.
\<close>

datatype timerState = TimerRunning | TimerFired | TimerStopped

datatype pillTask = Started | Waiting nat | Received | Finished

record game =
  maze :: "string list"
  player :: sprite
  ghosts :: "ghost list"
  score :: int
  numDots :: int
  lives :: int
  pillTimer :: "nat option"
  timers :: "timerState list"
  readLocks :: nat
  pillTasks :: "pillTask list"
  slept :: nat

text \<open>The variables as the program starts: zero values, and \<open>lives = 3\<close>.\<close>

definition initial :: game where
  "initial = \<lparr>maze = [], player = \<lparr>row = 0, col = 0, startRow = 0, startCol = 0\<rparr>,
     ghosts = [], score = 0, numDots = 0, lives = 3, pillTimer = None, timers = [],
     readLocks = 0, pillTasks = [], slept = 0\<rparr>"

section \<open>Loading the maze\<close>

text \<open>
  The two nested \<open>range\<close> loops of \<open>loadMaze\<close>.  \<open>range\<close> over a string yields runes
  at their byte offsets; the three characters looked for are ASCII and no byte inside a
  longer rune equals one of them, so the scan over bytes finds the same cells.
\<close>

fun scanLine :: "int \<Rightarrow> int \<Rightarrow> string \<Rightarrow> game \<Rightarrow> game" where
  "scanLine r c [] s = s"
| "scanLine r c (ch # rest) s =
     scanLine r (c + 1) rest
       (if ch = CHR ''P'' then s\<lparr>player := \<lparr>row = r, col = c, startRow = r, startCol = c\<rparr>\<rparr>
        else if ch = CHR ''G'' then
          s\<lparr>ghosts := ghosts s @
             [\<lparr>position = \<lparr>row = r, col = c, startRow = r, startCol = c\<rparr>,
               status = GhostStatusNormal\<rparr>]\<rparr>
        else if ch = CHR ''.'' then s\<lparr>numDots := numDots s + 1\<rparr>
        else s)"

fun scanRows :: "int \<Rightarrow> string list \<Rightarrow> game \<Rightarrow> game" where
  "scanRows r [] s = s"
| "scanRows r (line # rest) s = scanRows (r + 1) rest (scanLine r 0 line s)"

text \<open>
  \<open>loadMaze\<close>: the file is \<open>None\<close> when it cannot be opened, otherwise its lines as
  the scanner returns them.
\<close>

definition loadMaze :: "string list option \<Rightarrow> game \<Rightarrow> error + game" where
  "loadMaze file s =
     (case file of
        None \<Rightarrow> Inl OpenFailed
      | Some lines \<Rightarrow>
          (let s1 = s\<lparr>maze := maze s @ lines\<rparr> in Inr (scanRows 0 (maze s1) s1)))"

section \<open>The player's move\<close>

text \<open>The closure \<open>removeDot\<close> of \<open>movePlayer\<close>; it is called on a cell just read.\<close>

definition removeDot :: "int \<Rightarrow> int \<Rightarrow> string list \<Rightarrow> string list" where
  "removeDot r c mz =
     mz[nat r := take (nat c) (mz ! nat r) @ '' '' @ drop (nat c + 1) (mz ! nat r)]"

definition movePlayer :: "string \<Rightarrow> game \<Rightarrow> error + game" where
  "movePlayer dir s =
     (case makeMove (maze s) (row (player s)) (col (player s)) dir of
        Inl e \<Rightarrow> Inl e
      | Inr (r, c) \<Rightarrow>
          (let s1 = s\<lparr>player := (player s)\<lparr>row := r, col := c\<rparr>\<rparr>
           in case cellAt (maze s1) r c of
                Inl e \<Rightarrow> Inl e
              | Inr ch \<Rightarrow>
                  if ch = CHR ''.'' then
                    Inr (s1\<lparr>numDots := numDots s1 - 1, score := score s1 + 1,
                             maze := removeDot r c (maze s1)\<rparr>)
                  else if ch = CHR ''X'' then
                    Inr (s1\<lparr>score := score s1 + 10, maze := removeDot r c (maze s1),
                             pillTasks := pillTasks s1 @ [Started]\<rparr>)
                  else Inr s1))"

section \<open>The ghosts' moves\<close>

text \<open>\<open>drawDirection\<close>, given the number that \<open>rand.Intn(4)\<close> returned.\<close>

definition move :: "nat \<rightharpoonup> string" where
  "move = map_of [(0, ''UP''), (1, ''DOWN''), (2, ''RIGHT''), (3, ''LEFT'')]"

definition drawDirection :: "nat \<Rightarrow> string" where
  "drawDirection dir = (case move dir of None \<Rightarrow> [] | Some d \<Rightarrow> d)"

text \<open>
  One iteration of the loop of \<open>moveGhosts\<close>, for the ghost at index \<open>i\<close>; \<open>rnd i\<close> is
  the number drawn for it.
\<close>

definition moveGhost :: "(nat \<Rightarrow> nat) \<Rightarrow> nat \<Rightarrow> game \<Rightarrow> error + game" where
  "moveGhost rnd i s =
     (let g = ghosts s ! i; dir = drawDirection (rnd i)
      in case makeMove (maze s) (row (position g)) (col (position g)) dir of
           Inl e \<Rightarrow> Inl e
         | Inr (r, c) \<Rightarrow>
             Inr (s\<lparr>ghosts := (ghosts s)[i := g\<lparr>position := (position g)\<lparr>row := r, col := c\<rparr>\<rparr>]\<rparr>))"

fun moveGhostsFrom :: "(nat \<Rightarrow> nat) \<Rightarrow> nat list \<Rightarrow> game \<Rightarrow> error + game" where
  "moveGhostsFrom rnd [] s = Inr s"
| "moveGhostsFrom rnd (i # rest) s =
     (case moveGhost rnd i s of Inl e \<Rightarrow> Inl e | Inr s' \<Rightarrow> moveGhostsFrom rnd rest s')"

definition moveGhosts :: "(nat \<Rightarrow> nat) \<Rightarrow> game \<Rightarrow> error + game" where
  "moveGhosts rnd s = moveGhostsFrom rnd [0..<length (ghosts s)] s"

text \<open>The random source under which every call of \<open>rand.Intn(4)\<close> returns \<open>n\<close>.\<close>

definition constantDraw :: "nat \<Rightarrow> nat \<Rightarrow> nat" where
  "constantDraw n i = n"

section \<open>Ghost status and the pill\<close>

fun setStatus :: "nat list \<Rightarrow> GhostStatus \<Rightarrow> ghost list \<Rightarrow> ghost list" where
  "setStatus [] st gs = gs"
| "setStatus (i # rest) st gs = setStatus rest st (gs[i := (gs ! i)\<lparr>status := st\<rparr>])"

text \<open>
  \<open>updateGhosts\<close>, on the ghosts at the given indices of the global slice.  It takes the
  write lock and releases it on return; the write lock is not granted while a read lock
  is held.
\<close>

definition updateGhosts :: "nat list \<Rightarrow> GhostStatus \<Rightarrow> game \<Rightarrow> error + game" where
  "updateGhosts idxs ghostStatus s =
     (if readLocks s \<noteq> 0 then Inl Deadlock
      else Inr (s\<lparr>ghosts := setStatus idxs ghostStatus (ghosts s)\<rparr>))"

text \<open>
  \<open>Stop\<close> on a timer: a running timer will not fire any more; on a timer that has
  fired it changes nothing (it returns false, which the program ignores).
\<close>

definition stopTimer :: "nat \<Rightarrow> timerState list \<Rightarrow> timerState list" where
  "stopTimer n ts = (if n < length ts \<and> ts ! n = TimerRunning then ts[n := TimerStopped] else ts)"

text \<open>
  \<open>processPill\<close> runs in a goroutine of its own; \<open>j\<close> is its index in \<open>pillTasks\<close>.
  Its first critical section, up to the first \<open>pillMx.Unlock()\<close>, after which
  the goroutine waits for the channel of the timer that \<open>pillTimer\<close> then points to:
\<close>

definition processPill_arm :: "nat \<Rightarrow> game \<Rightarrow> error + game" where
  "processPill_arm j s =
     (if \<not> (j < length (pillTasks s) \<and> pillTasks s ! j = Started) then Inl NotEnabled
      else
        (case updateGhosts [0..<length (ghosts s)] GhostStatusBlue s of
           Inl e \<Rightarrow> Inl e
         | Inr s1 \<Rightarrow>
             (let stopped = (case pillTimer s1 of None \<Rightarrow> timers s1
                             | Some n \<Rightarrow> stopTimer n (timers s1))
              in Inr (s1\<lparr>pillTimer := Some (length stopped),
                          timers := stopped @ [TimerRunning],
                          pillTasks := (pillTasks s1)[j := Waiting (length stopped)]\<rparr>))))"

text \<open>The runtime sends the time on the channel of a running timer when it is due.\<close>

definition timerFires :: "nat \<Rightarrow> game \<Rightarrow> error + game" where
  "timerFires n s =
     (if n < length (timers s) \<and> timers s ! n = TimerRunning
      then Inr (s\<lparr>timers := (timers s)[n := TimerFired]\<rparr>)
      else Inl NotEnabled)"

text \<open>The receive \<open><-pillTimer.C\<close> returns once the timer waited for has fired.\<close>

definition processPill_receive :: "nat \<Rightarrow> game \<Rightarrow> error + game" where
  "processPill_receive j s =
     (if j < length (pillTasks s) then
        (case pillTasks s ! j of
           Waiting n \<Rightarrow>
             if n < length (timers s) \<and> timers s ! n = TimerFired
             then Inr (s\<lparr>pillTasks := (pillTasks s)[j := Received]\<rparr>)
             else Inl NotEnabled
         | _ \<Rightarrow> Inl NotEnabled)
      else Inl NotEnabled)"

text \<open>
  The second critical section, from the second \<open>pillMx.Lock()\<close> to the end; it stops
  whatever timer \<open>pillTimer\<close> points to by then.
\<close>

definition processPill_expire :: "nat \<Rightarrow> game \<Rightarrow> error + game" where
  "processPill_expire j s =
     (if \<not> (j < length (pillTasks s) \<and> pillTasks s ! j = Received) then Inl NotEnabled
      else
        (case pillTimer s of
           None \<Rightarrow> Inl NilDereference
         | Some n \<Rightarrow>
             updateGhosts [0..<length (ghosts s)] GhostStatusNormal
               (s\<lparr>timers := stopTimer n (timers s),
                   pillTasks := (pillTasks s)[j := Finished]\<rparr>)))"

section \<open>Collisions\<close>

definition RLock :: "game \<Rightarrow> game" where
  "RLock s = s\<lparr>readLocks := readLocks s + 1\<rparr>"

definition RUnlock :: "game \<Rightarrow> game" where
  "RUnlock s = s\<lparr>readLocks := readLocks s - 1\<rparr>"

text \<open>
  One iteration of the collision loop of \<open>main\<close>, for the ghost at index \<open>i\<close>.  The
  cursor moves and the printing of the death glyph leave the state as it is.
\<close>

definition collide :: "nat \<Rightarrow> game \<Rightarrow> error + game" where
  "collide i s =
     (let g = ghosts s ! i
      in if row (player s) = row (position g) \<and> col (player s) = col (position g) then
           (let s1 = RLock s
            in if status g = GhostStatusNormal then
                 (let s2 = s1\<lparr>lives := lives s1 - 1\<rparr>
                  in if lives s2 \<noteq> 0 then
                       (let s3 = RUnlock s2;
                            s4 = s3\<lparr>slept := slept s3 + 1000\<rparr>
                        in Inr (s4\<lparr>player := (player s4)\<lparr>row := startRow (player s4),
                                                             col := startRow (player s4)\<rparr>\<rparr>))
                     else Inr s2)
               else
                 (case updateGhosts [i] GhostStatusNormal (RUnlock s1) of
                    Inl e \<Rightarrow> Inl e
                  | Inr s2 \<Rightarrow>
                      (let g2 = ghosts s2 ! i
                       in Inr (s2\<lparr>ghosts := (ghosts s2)[i := g2\<lparr>position := (position g2)
                                   \<lparr>row := startRow (position g2),
                                    col := startCol (position g2)\<rparr>\<rparr>]\<rparr>))))
         else Inr s)"

fun collideFrom :: "nat list \<Rightarrow> game \<Rightarrow> error + game" where
  "collideFrom [] s = Inr s"
| "collideFrom (i # rest) s =
     (case collide i s of Inl e \<Rightarrow> Inl e | Inr s' \<Rightarrow> collideFrom rest s')"

definition collisions :: "game \<Rightarrow> error + game" where
  "collisions s = collideFrom [0..<length (ghosts s)] s"

section \<open>The simulation loop\<close>

text \<open>\<open>printScreen\<close> reads the state under the read lock and changes none of it.\<close>

definition printScreen :: "game \<Rightarrow> game" where
  "printScreen s = RUnlock (RLock s)"

text \<open>
  The \<open>select\<close>: \<open>Some inp\<close> when a value is received from the input channel,
  \<open>None\<close> for the default case.
\<close>

definition processInput :: "string option \<Rightarrow> game \<Rightarrow> error + game" where
  "processInput received s =
     (case received of
        None \<Rightarrow> Inr s
      | Some inp \<Rightarrow> movePlayer inp (if inp = ''ESC'' then s\<lparr>lives := 0\<rparr> else s))"

text \<open>The body of the loop down to \<open>printScreen\<close>.\<close>

definition tick :: "string option \<Rightarrow> (nat \<Rightarrow> nat) \<Rightarrow> game \<Rightarrow> error + game" where
  "tick received rnd s =
     (case processInput received s of
        Inl e \<Rightarrow> Inl e
      | Inr s1 \<Rightarrow>
          (case moveGhosts rnd s1 of
             Inl e \<Rightarrow> Inl e
           | Inr s2 \<Rightarrow>
               (case collisions s2 of
                  Inl e \<Rightarrow> Inl e
                | Inr s3 \<Rightarrow> Inr (printScreen s3))))"

text \<open>The test before the \<open>break\<close>.\<close>

definition gameOver :: "game \<Rightarrow> bool" where
  "gameOver s \<longleftrightarrow> numDots s = 0 \<or> lives s \<le> 0"

text \<open>
  The loop \<open>for { ... }\<close> over the ticks for which the environment (the input channel
  and the random numbers) is given: it has left through the \<open>break\<close>, it has stopped
  in a panic or a deadlock, or it is still running after the last of them.
\<close>

datatype outcome = Exited game | Crashed error | Running game

fun gameLoop :: "(string option \<times> (nat \<Rightarrow> nat)) list \<Rightarrow> game \<Rightarrow> outcome" where
  "gameLoop [] s = Running s"
| "gameLoop ((received, rnd) # rest) s =
     (case tick received rnd s of
        Inl e \<Rightarrow> Crashed e
      | Inr s' \<Rightarrow>
          if gameOver s' then Exited s'
          else gameLoop rest (s'\<lparr>slept := slept s' + 150\<rparr>))"

section \<open>The input reader\<close>

text \<open>
  \<open>readInput\<close>, given what \<open>os.Stdin.Read\<close> returned: the bytes read (at most 100,
  the rest of the buffer stays zero) and the error.
\<close>

definition byteAt :: "string \<Rightarrow> nat \<Rightarrow> char" where
  "byteAt buffer i = (if i < length buffer then buffer ! i else CHR 0x00)"

definition readInput :: "string \<Rightarrow> string option \<Rightarrow> string \<times> string option" where
  "readInput buffer err =
     (let cnt = length buffer
      in if err \<noteq> None then ([], err)
         else if cnt = 1 \<and> byteAt buffer 0 = CHR 0x1B then (''ESC'', None)
         else if cnt \<ge> 3 \<and> byteAt buffer 0 = CHR 0x1B \<and> byteAt buffer 1 = CHR ''[''
                 \<and> byteAt buffer 2 = CHR ''A'' then (''UP'', None)
         else if cnt \<ge> 3 \<and> byteAt buffer 0 = CHR 0x1B \<and> byteAt buffer 1 = CHR ''[''
                 \<and> byteAt buffer 2 = CHR ''B'' then (''DOWN'', None)
         else if cnt \<ge> 3 \<and> byteAt buffer 0 = CHR 0x1B \<and> byteAt buffer 1 = CHR ''[''
                 \<and> byteAt buffer 2 = CHR ''C'' then (''RIGHT'', None)
         else if cnt \<ge> 3 \<and> byteAt buffer 0 = CHR 0x1B \<and> byteAt buffer 1 = CHR ''[''
                 \<and> byteAt buffer 2 = CHR ''D'' then (''LEFT'', None)
         else ([], None))"

text \<open>
  One iteration of the reader goroutine: the values it sends on the channel, in order.
  The goroutine's loop has no exit, so it runs one iteration for every read.
\<close>

definition readerIteration :: "string \<Rightarrow> string option \<Rightarrow> string list" where
  "readerIteration buffer err =
     (case readInput buffer err of
        (input, e) \<Rightarrow> (if e \<noteq> None then [''ESC''] else []) @ [input])"

fun reader :: "(string \<times> string option) list \<Rightarrow> string list" where
  "reader [] = []"
| "reader ((buffer, err) # rest) = readerIteration buffer err @ reader rest"

section \<open>Reachable states\<close>

text \<open>
  The states the program passes through after loading a maze, at the granularity of the
  calls above.  The steps of the pill goroutines and the firing of a timer may fall
  between any two of them, so they are steps of their own.
\<close>

inductive reachable :: "game \<Rightarrow> bool" where
  loaded: "loadMaze (Some lines) initial = Inr s \<Longrightarrow> reachable s"
| input: "reachable s \<Longrightarrow> processInput received s = Inr s' \<Longrightarrow> reachable s'"
| ghost: "reachable s \<Longrightarrow> moveGhost rnd i s = Inr s' \<Longrightarrow> i < length (ghosts s) \<Longrightarrow> reachable s'"
| collision: "reachable s \<Longrightarrow> collide i s = Inr s' \<Longrightarrow> i < length (ghosts s) \<Longrightarrow> reachable s'"
| screen: "reachable s \<Longrightarrow> reachable (printScreen s)"
| sleep: "reachable s \<Longrightarrow> reachable (s\<lparr>slept := slept s + 150\<rparr>)"
| arm: "reachable s \<Longrightarrow> processPill_arm j s = Inr s' \<Longrightarrow> reachable s'"
| fire: "reachable s \<Longrightarrow> timerFires n s = Inr s' \<Longrightarrow> reachable s'"
| receive: "reachable s \<Longrightarrow> processPill_receive j s = Inr s' \<Longrightarrow> reachable s'"
| expire: "reachable s \<Longrightarrow> processPill_expire j s = Inr s' \<Longrightarrow> reachable s'"

text \<open>The number of dot cells in the grid.\<close>

definition dotCount :: "string list \<Rightarrow> nat" where
  "dotCount mz = sum_list (map (\<lambda>line. count_list line (CHR ''.'')) mz)"

section \<open>Running several steps\<close>

text \<open>A step after a step that did not fail.\<close>

definition andThen :: "error + 'a \<Rightarrow> ('a \<Rightarrow> error + 'b) \<Rightarrow> error + 'b" where
  "andThen r f = (case r of Inl e \<Rightarrow> Inl e | Inr s \<Rightarrow> f s)"

text \<open>
  A state in which the ghost, blue since the pill at (1, 2) was eaten, has walked from its
  start at (1, 4) onto the player.
\<close>

definition blueExample :: game where
  "blueExample = \<lparr>maze = [''######'', ''#P .G#'', ''######''],
     player = \<lparr>row = 1, col = 2, startRow = 1, startCol = 1\<rparr>,
     ghosts = [\<lparr>position = \<lparr>row = 1, col = 2, startRow = 1, startCol = 4\<rparr>,
                status = GhostStatusBlue\<rparr>],
     score = 10, numDots = 1, lives = 3, pillTimer = Some 0, timers = [TimerRunning],
     readLocks = 0, pillTasks = [Waiting 0], slept = 0\<rparr>"

text \<open>A corridor with one dot and one pill, as loaded, and after the dot is eaten.\<close>

definition dotExample :: game where
  "dotExample = \<lparr>maze = [''#####'', ''#P.X#'', ''#####''],
     player = \<lparr>row = 1, col = 1, startRow = 1, startCol = 1\<rparr>,
     ghosts = [], score = 0, numDots = 1, lives = 3, pillTimer = None, timers = [],
     readLocks = 0, pillTasks = [], slept = 0\<rparr>"

definition dotExampleEaten :: game where
  "dotExampleEaten = \<lparr>maze = [''#####'', ''#P X#'', ''#####''],
     player = \<lparr>row = 1, col = 2, startRow = 1, startCol = 1\<rparr>,
     ghosts = [], score = 1, numDots = 0, lives = 3, pillTimer = None, timers = [],
     readLocks = 0, pillTasks = [], slept = 0\<rparr>"




text \<open>Every ghost is within the grid.\<close>

definition ghostsInBounds :: "string list \<Rightarrow> ghost list \<Rightarrow> bool" where
  "ghostsInBounds mz gs \<longleftrightarrow> list_all (\<lambda>g. inBounds mz (row (position g)) (col (position g))) gs"

text \<open>
  A corridor in which the ghost stands next to the player, and the state in which the
  loop leaves after an Escape while the ghost steps onto the player.
\<close>

definition escExample :: game where
  "escExample = \<lparr>maze = [''#####'', ''#PG.#'', ''#####''],
     player = \<lparr>row = 1, col = 1, startRow = 1, startCol = 1\<rparr>,
     ghosts = [\<lparr>position = \<lparr>row = 1, col = 2, startRow = 1, startCol = 2\<rparr>,
                status = GhostStatusNormal\<rparr>],
     score = 0, numDots = 1, lives = 3, pillTimer = None, timers = [],
     readLocks = 0, pillTasks = [], slept = 0\<rparr>"

definition escExampleEnd :: game where
  "escExampleEnd = \<lparr>maze = [''#####'', ''#PG.#'', ''#####''],
     player = \<lparr>row = 1, col = 1, startRow = 1, startCol = 1\<rparr>,
     ghosts = [\<lparr>position = \<lparr>row = 1, col = 1, startRow = 1, startCol = 2\<rparr>,
                status = GhostStatusNormal\<rparr>],
     score = 0, numDots = 1, lives = - 1, pillTimer = None, timers = [],
     readLocks = 0, pillTasks = [], slept = 1000\<rparr>"



section \<open>Properties of movement resolution\<close>

lemma hd_conv_nth0: "mz \<noteq> [] \<Longrightarrow> mz ! 0 = hd mz"
  by (cases mz) simp_all

lemma inBounds_nonempty: "inBounds mz r c \<Longrightarrow> mz \<noteq> []"
  by (auto simp: inBounds_def)

lemma rectangular_row: "rectangular mz \<Longrightarrow> 0 \<le> r \<Longrightarrow> r < int (length mz) \<Longrightarrow>
    length (mz ! nat r) = length (hd mz)"
  by (simp add: rectangular_def list_all_length)

lemma cellAt_inBounds: "rectangular mz \<Longrightarrow> inBounds mz r c \<Longrightarrow>
    cellAt mz r c = Inr ((mz ! nat r) ! nat c)"
  by (simp add: cellAt_def inBounds_def rectangular_row)

lemma makeMove_wrap_total:
  assumes "inBounds mz r c"
  shows "\<exists>r' c'. makeMove_wrap mz r c dir = Inr (r', c') \<and> inBounds mz r' c'"
  using assms inBounds_nonempty [OF assms]
  by (auto simp: makeMove_wrap_def inBounds_def Let_def hd_conv_nth0)

lemma wrap_up_down:
  assumes "inBounds mz r c"
  shows "makeMove_wrap mz r c ''UP'' = Inr (r', c') \<Longrightarrow> makeMove_wrap mz r' c' ''DOWN'' = Inr (r, c)"
  using assms by (auto simp: makeMove_wrap_def inBounds_def Let_def split: if_splits)

lemma wrap_left_right:
  assumes "inBounds mz r c"
  shows "makeMove_wrap mz r c ''LEFT'' = Inr (r', c') \<Longrightarrow> makeMove_wrap mz r' c' ''RIGHT'' = Inr (r, c)"
  using assms inBounds_nonempty [OF assms]
  by (auto simp: makeMove_wrap_def inBounds_def Let_def hd_conv_nth0 split: if_splits)

text \<open>
  Claim C7 (wraparound closure).  From an in-bounds position of a rectangular grid, the
  wraparound step of \<open>makeMove\<close> in each of the four directions yields a position
  whose row lies in \<open>[0, rowCount)\<close> and whose column lies in \<open>[0, colCount)\<close>, the
  column also being within the length of its own row; stepping up and then down, or left
  and then right, leads back to the position started from.
\<close>

theorem wraparound_closure:
  assumes "rectangular mz" and "inBounds mz r c"
  shows "(\<forall>dir \<in> set fourDirections.
            \<exists>r' c'. makeMove_wrap mz r c dir = Inr (r', c') \<and>
                    0 \<le> r' \<and> r' < int (length mz) \<and>
                    0 \<le> c' \<and> c' < int (length (hd mz)) \<and> c' < int (length (mz ! nat r')))
       \<and> (\<exists>r' c'. makeMove_wrap mz r c ''UP'' = Inr (r', c') \<and>
                   makeMove_wrap mz r' c' ''DOWN'' = Inr (r, c))
       \<and> (\<exists>r' c'. makeMove_wrap mz r c ''LEFT'' = Inr (r', c') \<and>
                   makeMove_wrap mz r' c' ''RIGHT'' = Inr (r, c))"
proof (intro conjI ballI)
  fix dir assume "dir \<in> set fourDirections"
  obtain r' c' where w: "makeMove_wrap mz r c dir = Inr (r', c')" and b: "inBounds mz r' c'"
    using makeMove_wrap_total [OF assms(2)] by blast
  from b have "length (mz ! nat r') = length (hd mz)"
    using rectangular_row [OF assms(1)] by (simp add: inBounds_def)
  with w b show "\<exists>r' c'. makeMove_wrap mz r c dir = Inr (r', c') \<and>
                    0 \<le> r' \<and> r' < int (length mz) \<and>
                    0 \<le> c' \<and> c' < int (length (hd mz)) \<and> c' < int (length (mz ! nat r'))"
    by (auto simp: inBounds_def)
next
  obtain r' c' where w: "makeMove_wrap mz r c ''UP'' = Inr (r', c')"
    using makeMove_wrap_total [OF assms(2)] by blast
  then show "\<exists>r' c'. makeMove_wrap mz r c ''UP'' = Inr (r', c') \<and>
                   makeMove_wrap mz r' c' ''DOWN'' = Inr (r, c)"
    using wrap_up_down [OF assms(2) w] by blast
next
  obtain r' c' where w: "makeMove_wrap mz r c ''LEFT'' = Inr (r', c')"
    using makeMove_wrap_total [OF assms(2)] by blast
  then show "\<exists>r' c'. makeMove_wrap mz r c ''LEFT'' = Inr (r', c') \<and>
                   makeMove_wrap mz r' c' ''RIGHT'' = Inr (r, c)"
    using wrap_left_right [OF assms(2) w] by blast
qed

text \<open>
  The theorem at the top edge of a grid three rows high that is open above and below:
  going up from row 0 enters at row 2, and going down from there leads back.
\<close>

theorem wraparound_closure_witness:
  "rectangular [''# #'', ''P.X'', ''# #''] \<and> inBounds [''# #'', ''P.X'', ''# #''] 0 1 \<and>
   makeMove_wrap [''# #'', ''P.X'', ''# #''] 0 1 ''UP'' = Inr (2, 1) \<and>
   makeMove_wrap [''# #'', ''P.X'', ''# #''] 2 1 ''DOWN'' = Inr (0, 1) \<and>
   (\<exists>r' c'. makeMove_wrap [''# #'', ''P.X'', ''# #''] 0 1 ''LEFT'' = Inr (r', c') \<and>
            makeMove_wrap [''# #'', ''P.X'', ''# #''] r' c' ''RIGHT'' = Inr (0, 1))"
proof -
  have h1: "rectangular [''# #'', ''P.X'', ''# #'']"
    by (simp add: rectangular_def)
  have h2: "inBounds [''# #'', ''P.X'', ''# #''] 0 1"
    by (simp add: inBounds_def)
  show ?thesis
    using h1 h2 wraparound_closure [OF h1 h2]
    by (simp add: makeMove_wrap_def)
qed

text \<open>
  Claim C8 (wall exclusion).  From an in-bounds position of a rectangular grid,
  \<open>makeMove\<close> returns the position unchanged when the cell at the wrapped candidate is
  a wall, and the wrapped candidate otherwise; it does not panic.
\<close>

theorem wall_exclusion:
  assumes "rectangular mz" and "inBounds mz r c"
  shows "\<exists>r' c'. makeMove_wrap mz r c dir = Inr (r', c') \<and> inBounds mz r' c' \<and>
           makeMove mz r c dir =
             Inr (if mz ! nat r' ! nat c' = CHR ''#'' then (r, c) else (r', c'))"
proof -
  obtain r' c' where w: "makeMove_wrap mz r c dir = Inr (r', c')" and b: "inBounds mz r' c'"
    using makeMove_wrap_total [OF assms(2)] by blast
  have "makeMove mz r c dir = Inr (if mz ! nat r' ! nat c' = CHR ''#'' then (r, c) else (r', c'))"
    by (simp add: makeMove_def w cellAt_inBounds [OF assms(1) b])
  with w b show ?thesis by blast
qed

text \<open>
  The theorem in a walled corridor: the move to the right enters the dot cell, the move up
  is towards a wall and leaves the position as it is.
\<close>

theorem wall_exclusion_witness:
  "rectangular [''####'', ''#P.#'', ''####''] \<and> inBounds [''####'', ''#P.#'', ''####''] 1 1 \<and>
   makeMove [''####'', ''#P.#'', ''####''] 1 1 ''RIGHT'' = Inr (1, 2) \<and>
   (\<exists>r' c'. makeMove_wrap [''####'', ''#P.#'', ''####''] 1 1 ''UP'' = Inr (r', c') \<and>
            [''####'', ''#P.#'', ''####''] ! nat r' ! nat c' = CHR ''#'' \<and>
            makeMove [''####'', ''#P.#'', ''####''] 1 1 ''UP'' = Inr (1, 1))"
proof -
  have h1: "rectangular [''####'', ''#P.#'', ''####'']"
    by (simp add: rectangular_def)
  have h2: "inBounds [''####'', ''#P.#'', ''####''] 1 1"
    by (simp add: inBounds_def)
  show ?thesis
    using h1 h2 wall_exclusion [OF h1 h2, of "''RIGHT''"] wall_exclusion [OF h1 h2, of "''UP''"]
    by (simp add: makeMove_wrap_def makeMove_def cellAt_def)
qed

section \<open>Properties of the collision pass\<close>

lemmas run_defs = andThen_def loadMaze_def initial_def tick_def processInput_def movePlayer_def
  makeMove_def makeMove_wrap_def cellAt_def removeDot_def moveGhosts_def moveGhost_def
  drawDirection_def move_def collisions_def collide_def updateGhosts_def RLock_def RUnlock_def
  printScreen_def processPill_arm_def processPill_expire_def processPill_receive_def
  timerFires_def stopTimer_def gameOver_def constantDraw_def Let_def upt_rec

lemma collide_length: "collide i s = Inr s' \<Longrightarrow> length (ghosts s') = length (ghosts s)"
  by (auto simp: collide_def updateGhosts_def RLock_def RUnlock_def Let_def split: if_splits)

lemma collide_other: "collide j s = Inr s' \<Longrightarrow> i \<noteq> j \<Longrightarrow> ghosts s' ! i = ghosts s ! i"
  by (auto simp: collide_def updateGhosts_def RLock_def RUnlock_def Let_def split: if_splits)

lemma collideFrom_length: "collideFrom js s = Inr s' \<Longrightarrow> length (ghosts s') = length (ghosts s)"
  by (induction js arbitrary: s) (auto split: sum.splits dest: collide_length)

lemma collideFrom_other: "collideFrom js s = Inr s' \<Longrightarrow> i \<notin> set js \<Longrightarrow> ghosts s' ! i = ghosts s ! i"
  by (induction js arbitrary: s) (auto split: sum.splits dest: collide_other)

lemma collideFrom_append:
  "collideFrom (js @ ks) s = (case collideFrom js s of Inl e \<Rightarrow> Inl e | Inr s' \<Rightarrow> collideFrom ks s')"
  by (induction js arbitrary: s) (auto split: sum.splits)

lemma collide_blue:
  assumes "i < length (ghosts t)"
    and "row (player t) = row (position (ghosts t ! i)) \<and> col (player t) = col (position (ghosts t ! i))"
    and "status (ghosts t ! i) = GhostStatusBlue"
    and "readLocks t = 0"
  shows "\<exists>t'. collide i t = Inr t' \<and>
           status (ghosts t' ! i) = GhostStatusNormal \<and>
           row (position (ghosts t' ! i)) = startRow (position (ghosts t ! i)) \<and>
           col (position (ghosts t' ! i)) = startCol (position (ghosts t ! i)) \<and>
           lives t' = lives t \<and> score t' = score t \<and> player t' = player t \<and>
           readLocks t' = 0"
  using assms
  by (simp add: collide_def updateGhosts_def RLock_def RUnlock_def Let_def)

lemma collisions_split:
  assumes "i < length (ghosts s)"
  shows "collisions s =
    (case collideFrom [0..<i] s of Inl e \<Rightarrow> Inl e
     | Inr t \<Rightarrow> (case collide i t of Inl e \<Rightarrow> Inl e
        | Inr t' \<Rightarrow> collideFrom [Suc i..<length (ghosts s)] t'))"
proof -
  have "[0..<length (ghosts s)] = [0..<i] @ i # [Suc i..<length (ghosts s)]"
    using assms upt_add_eq_append [of 0 i "length (ghosts s) - i"] by (simp add: upt_conv_Cons)
  then show ?thesis
    by (simp add: collisions_def collideFrom_append split: sum.splits)
qed

text \<open>
  Claim C1, as the code has it.  When the collision pass reaches a ghost that shares the
  player's position and is blue, and no read lock is left held, the step for that ghost
  sets its status to normal, puts it back on its own start position and leaves both the
  lives and the score as they are; the rest of the pass does not touch that ghost again.
  No bonus is added to the score.
\<close>

theorem blue_collision:
  assumes "i < length (ghosts s)"
    and "collideFrom [0..<i] s = Inr t"
    and "row (player t) = row (position (ghosts t ! i)) \<and> col (player t) = col (position (ghosts t ! i))"
    and "status (ghosts t ! i) = GhostStatusBlue"
    and "readLocks t = 0"
  shows "\<exists>t'. collide i t = Inr t' \<and>
           status (ghosts t' ! i) = GhostStatusNormal \<and>
           row (position (ghosts t' ! i)) = startRow (position (ghosts s ! i)) \<and>
           col (position (ghosts t' ! i)) = startCol (position (ghosts s ! i)) \<and>
           lives t' = lives t \<and> score t' = score t \<and>
           (\<forall>u. collisions s = Inr u \<longrightarrow> ghosts u ! i = ghosts t' ! i)"
proof -
  have len: "length (ghosts t) = length (ghosts s)"
    using collideFrom_length [OF assms(2)] .
  have same: "ghosts t ! i = ghosts s ! i"
    using collideFrom_other [OF assms(2), of i] by simp
  obtain t' where c: "collide i t = Inr t'"
    and f: "status (ghosts t' ! i) = GhostStatusNormal"
      "row (position (ghosts t' ! i)) = startRow (position (ghosts t ! i))"
      "col (position (ghosts t' ! i)) = startCol (position (ghosts t ! i))"
      "lives t' = lives t" "score t' = score t"
    using collide_blue [of i t] assms len by auto
  have "ghosts u ! i = ghosts t' ! i" if "collisions s = Inr u" for u
  proof -
    from that have "collideFrom [Suc i..<length (ghosts s)] t' = Inr u"
      by (simp add: collisions_split [OF assms(1)] assms(2) c)
    then show ?thesis
      using collideFrom_other [of "[Suc i..<length (ghosts s)]" t' u i] by simp
  qed
  with c f same show ?thesis by auto
qed

text \<open>The theorem at \<open>blueExample\<close>: the ghost is back at (1, 4), normal; 3 lives, score 10.\<close>

theorem blue_collision_witness:
  "0 < length (ghosts blueExample) \<and>
   collideFrom [0..<0] blueExample = Inr blueExample \<and>
   (row (player blueExample) = row (position (ghosts blueExample ! 0)) \<and>
    col (player blueExample) = col (position (ghosts blueExample ! 0))) \<and>
   status (ghosts blueExample ! 0) = GhostStatusBlue \<and>
   readLocks blueExample = 0 \<and>
   (\<exists>t'. collide 0 blueExample = Inr t' \<and>
         status (ghosts t' ! 0) = GhostStatusNormal \<and>
         row (position (ghosts t' ! 0)) = 1 \<and> col (position (ghosts t' ! 0)) = 4 \<and>
         lives t' = 3 \<and> score t' = 10)"
proof -
  have h1: "0 < length (ghosts blueExample)"
    by (simp add: blueExample_def)
  have h2: "collideFrom [0..<0] blueExample = Inr blueExample"
    by simp
  have h3: "row (player blueExample) = row (position (ghosts blueExample ! 0)) \<and>
    col (player blueExample) = col (position (ghosts blueExample ! 0))"
    by (simp add: blueExample_def)
  have h4: "status (ghosts blueExample ! 0) = GhostStatusBlue"
    by (simp add: blueExample_def)
  have h5: "readLocks blueExample = 0"
    by (simp add: blueExample_def)
  have v: "startRow (position (ghosts blueExample ! 0)) = 1"
    "startCol (position (ghosts blueExample ! 0)) = 4"
    "lives blueExample = 3" "score blueExample = 10"
    by (simp_all add: blueExample_def)
  obtain t' where "collide 0 blueExample = Inr t'"
    and "status (ghosts t' ! 0) = GhostStatusNormal"
    and "row (position (ghosts t' ! 0)) = startRow (position (ghosts blueExample ! 0))"
    and "col (position (ghosts t' ! 0)) = startCol (position (ghosts blueExample ! 0))"
    and "lives t' = lives blueExample" and "score t' = score blueExample"
    using blue_collision [OF h1 h2 h3 h4 h5] by blast
  then have "\<exists>t'. collide 0 blueExample = Inr t' \<and>
         status (ghosts t' ! 0) = GhostStatusNormal \<and>
         row (position (ghosts t' ! 0)) = 1 \<and> col (position (ghosts t' ! 0)) = 4 \<and>
         lives t' = 3 \<and> score t' = 10"
    using v by simp
  with h1 h2 h3 h4 h5 show ?thesis by blast
qed

text \<open>
  Claim C1 as stated fails on the score.  The player eats the pill (score 10), the pill
  goroutine turns the ghost blue, and on the next tick the ghost walks onto the player:
  the ghost is sent home and made normal, the lives stay at 3, and the score is still 10.
\<close>

theorem blue_collision_awards_no_bonus:
  "andThen (andThen (loadMaze (Some [''######'', ''#PX.G#'', ''######'']) initial)
              (tick (Some ''RIGHT'') (constantDraw 3)))
      (processPill_arm 0) =
     Inr \<lparr>maze = [''######'', ''#P .G#'', ''######''],
           player = \<lparr>row = 1, col = 2, startRow = 1, startCol = 1\<rparr>,
           ghosts = [\<lparr>position = \<lparr>row = 1, col = 3, startRow = 1, startCol = 4\<rparr>,
                      status = GhostStatusBlue\<rparr>],
           score = 10, numDots = 1, lives = 3, pillTimer = Some 0, timers = [TimerRunning],
           readLocks = 0, pillTasks = [Waiting 0], slept = 0\<rparr> \<and>
   tick None (constantDraw 3)
     \<lparr>maze = [''######'', ''#P .G#'', ''######''],
       player = \<lparr>row = 1, col = 2, startRow = 1, startCol = 1\<rparr>,
       ghosts = [\<lparr>position = \<lparr>row = 1, col = 3, startRow = 1, startCol = 4\<rparr>,
                  status = GhostStatusBlue\<rparr>],
       score = 10, numDots = 1, lives = 3, pillTimer = Some 0, timers = [TimerRunning],
       readLocks = 0, pillTasks = [Waiting 0], slept = 0\<rparr> =
     Inr \<lparr>maze = [''######'', ''#P .G#'', ''######''],
           player = \<lparr>row = 1, col = 2, startRow = 1, startCol = 1\<rparr>,
           ghosts = [\<lparr>position = \<lparr>row = 1, col = 4, startRow = 1, startCol = 4\<rparr>,
                      status = GhostStatusNormal\<rparr>],
           score = 10, numDots = 1, lives = 3, pillTimer = Some 0, timers = [TimerRunning],
           readLocks = 0, pillTasks = [Waiting 0], slept = 0\<rparr>"
  by (simp add: run_defs)

text \<open>
  Claim C3 at a failing input.  The player starts in column 5 of row 1.  After two moves
  to the left it meets the normal ghost at (1, 3) with 3 lives: the lives drop to 2, and
  the player is put on row 1, column 1, the start row written to both coordinates,
  instead of its start column 5.
\<close>

theorem respawn_writes_start_row_to_column:
  "andThen (loadMaze (Some [''#######'', ''#G...P#'', ''#######'']) initial)
      (tick (Some ''LEFT'') (constantDraw 2)) =
     Inr \<lparr>maze = [''#######'', ''#G.. P#'', ''#######''],
           player = \<lparr>row = 1, col = 4, startRow = 1, startCol = 5\<rparr>,
           ghosts = [\<lparr>position = \<lparr>row = 1, col = 2, startRow = 1, startCol = 1\<rparr>,
                      status = GhostStatusNormal\<rparr>],
           score = 1, numDots = 2, lives = 3, pillTimer = None, timers = [],
           readLocks = 0, pillTasks = [], slept = 0\<rparr> \<and>
   tick (Some ''LEFT'') (constantDraw 2)
     \<lparr>maze = [''#######'', ''#G.. P#'', ''#######''],
       player = \<lparr>row = 1, col = 4, startRow = 1, startCol = 5\<rparr>,
       ghosts = [\<lparr>position = \<lparr>row = 1, col = 2, startRow = 1, startCol = 1\<rparr>,
                  status = GhostStatusNormal\<rparr>],
       score = 1, numDots = 2, lives = 3, pillTimer = None, timers = [],
       readLocks = 0, pillTasks = [], slept = 0\<rparr> =
     Inr \<lparr>maze = [''#######'', ''#G.  P#'', ''#######''],
           player = \<lparr>row = 1, col = 1, startRow = 1, startCol = 5\<rparr>,
           ghosts = [\<lparr>position = \<lparr>row = 1, col = 3, startRow = 1, startCol = 1\<rparr>,
                      status = GhostStatusNormal\<rparr>],
           score = 2, numDots = 1, lives = 2, pillTimer = None, timers = [],
           readLocks = 0, pillTasks = [], slept = 1000\<rparr>"
  by (simp add: run_defs)

text \<open>
  Claim C10 at a failing input.  With one life left the player stands on a normal ghost:
  the pass takes the read lock, drops the lives to 0 and returns with the lock still
  held.  With a blue ghost on the same cell later in the slice, the pass then asks for
  the write lock under its own read lock and never returns.
\<close>

theorem read_lock_kept_when_lives_reach_zero:
  "collisions
     \<lparr>maze = [''#######'', ''#G.  P#'', ''#######''],
       player = \<lparr>row = 1, col = 1, startRow = 1, startCol = 5\<rparr>,
       ghosts = [\<lparr>position = \<lparr>row = 1, col = 1, startRow = 1, startCol = 1\<rparr>,
                  status = GhostStatusNormal\<rparr>],
       score = 2, numDots = 1, lives = 1, pillTimer = None, timers = [],
       readLocks = 0, pillTasks = [], slept = 2600\<rparr> =
     Inr \<lparr>maze = [''#######'', ''#G.  P#'', ''#######''],
           player = \<lparr>row = 1, col = 1, startRow = 1, startCol = 5\<rparr>,
           ghosts = [\<lparr>position = \<lparr>row = 1, col = 1, startRow = 1, startCol = 1\<rparr>,
                      status = GhostStatusNormal\<rparr>],
           score = 2, numDots = 1, lives = 0, pillTimer = None, timers = [],
           readLocks = 1, pillTasks = [], slept = 2600\<rparr> \<and>
   collisions
     \<lparr>maze = [''######'', ''#P .G#'', ''#G   #'', ''######''],
       player = \<lparr>row = 1, col = 2, startRow = 1, startCol = 1\<rparr>,
       ghosts = [\<lparr>position = \<lparr>row = 1, col = 2, startRow = 1, startCol = 4\<rparr>,
                  status = GhostStatusNormal\<rparr>,
                 \<lparr>position = \<lparr>row = 1, col = 2, startRow = 2, startCol = 1\<rparr>,
                  status = GhostStatusBlue\<rparr>],
       score = 10, numDots = 1, lives = 1, pillTimer = Some 0, timers = [TimerRunning],
       readLocks = 0, pillTasks = [Waiting 0], slept = 0\<rparr> =
     Inl Deadlock"
  by (simp add: run_defs)

section \<open>Dot accounting\<close>

lemma scanLine_maze [simp]: "maze (scanLine r c line s) = maze s"
  by (induction line arbitrary: c s) auto

lemma scanLine_numDots: "numDots (scanLine r c line s) = numDots s + int (count_list line (CHR ''.''))"
  by (induction line arbitrary: c s) auto

lemma scanRows_maze [simp]: "maze (scanRows r rows s) = maze s"
  by (induction rows arbitrary: r s) auto

lemma scanRows_numDots: "numDots (scanRows r rows s) = numDots s + int (dotCount rows)"
  by (induction rows arbitrary: r s) (auto simp: dotCount_def scanLine_numDots)

lemma loadMaze_dots:
  "loadMaze (Some lines) initial = Inr s \<Longrightarrow> numDots s = int (dotCount (maze s))"
  by (auto simp: loadMaze_def initial_def Let_def scanRows_numDots)

lemma count_list_app: "count_list (xs @ ys) a = count_list xs a + count_list ys a"
  by (induction xs) auto

lemma count_blank:
  assumes "c < length line"
  shows "count_list (take c line @ '' '' @ drop (c + 1) line) (CHR ''.'') + (if line ! c = CHR ''.'' then 1 else 0)
       = count_list line (CHR ''.'')"
proof -
  have "line = take c line @ line ! c # drop (Suc c) line"
    using assms by (simp add: id_take_nth_drop)
  then have "count_list line (CHR ''.'') =
      count_list (take c line @ line ! c # drop (Suc c) line) (CHR ''.'')" by simp
  then show ?thesis by (simp add: count_list_app)
qed

lemma dotCount_update:
  assumes "i < length mz"
  shows "dotCount (mz[i := l]) + count_list (mz ! i) (CHR ''.'') = dotCount mz + count_list l (CHR ''.'')"
  using assms
proof (induction mz arbitrary: i)
  case Nil then show ?case by simp
next
  case (Cons a mz)
  then show ?case by (cases i) (auto simp: dotCount_def)
qed

lemma dotCount_removeDot:
  assumes "cellAt mz r c = Inr ch"
  shows "dotCount (removeDot r c mz) + (if ch = CHR ''.'' then 1 else 0) = dotCount mz"
proof -
  from assms have r: "nat r < length mz" and c: "nat c < length (mz ! nat r)"
    and ch: "ch = mz ! nat r ! nat c"
    by (auto simp: cellAt_def split: if_splits)
  show ?thesis
    using dotCount_update [OF r, of "take (nat c) (mz ! nat r) @ '' '' @ drop (nat c + 1) (mz ! nat r)"]
      count_blank [OF c] ch
    by (simp add: removeDot_def split: if_splits)
qed


lemma movePlayer_effect:
  assumes "movePlayer dir s = Inr s'"
  shows "\<exists>ch. cellAt (maze s) (row (player s')) (col (player s')) = Inr ch \<and>
           maze s' = (if ch = CHR ''.'' \<or> ch = CHR ''X''
                      then removeDot (row (player s')) (col (player s')) (maze s) else maze s) \<and>
           numDots s' = (if ch = CHR ''.'' then numDots s - 1 else numDots s) \<and>
           score s' = (if ch = CHR ''.'' then score s + 1 else if ch = CHR ''X'' then score s + 10
                       else score s) \<and>
           pillTasks s' = (if ch = CHR ''X'' then pillTasks s @ [Started] else pillTasks s) \<and>
           ghosts s' = ghosts s \<and> lives s' = lives s \<and> readLocks s' = readLocks s"
proof -
  obtain r c where mv: "makeMove (maze s) (row (player s)) (col (player s)) dir = Inr (r, c)"
    using assms by (cases "makeMove (maze s) (row (player s)) (col (player s)) dir")
      (auto simp: movePlayer_def)
  obtain ch where ch: "cellAt (maze s) r c = Inr ch"
    using assms mv by (cases "cellAt (maze s) r c") (auto simp: movePlayer_def Let_def)
  have s': "s' = (let s1 = s\<lparr>player := (player s)\<lparr>row := r, col := c\<rparr>\<rparr> in
              if ch = CHR ''.'' then
                    s1\<lparr>numDots := numDots s1 - 1, score := score s1 + 1,
                             maze := removeDot r c (maze s1)\<rparr>
                  else if ch = CHR ''X'' then
                    s1\<lparr>score := score s1 + 10, maze := removeDot r c (maze s1),
                             pillTasks := pillTasks s1 @ [Started]\<rparr>
                  else s1)"
    using assms mv ch by (simp add: movePlayer_def Let_def split: if_splits)
  show ?thesis
    by (rule exI [of _ ch]) (simp add: s' Let_def ch)
qed


lemma movePlayer_dots:
  assumes "movePlayer dir s = Inr s'" and "numDots s = int (dotCount (maze s))"
  shows "numDots s' = int (dotCount (maze s'))"
proof -
  obtain ch where ch: "cellAt (maze s) (row (player s')) (col (player s')) = Inr ch"
    and m: "maze s' = (if ch = CHR ''.'' \<or> ch = CHR ''X''
                      then removeDot (row (player s')) (col (player s')) (maze s) else maze s)"
    and n: "numDots s' = (if ch = CHR ''.'' then numDots s - 1 else numDots s)"
    using movePlayer_effect [OF assms(1)] by blast
  show ?thesis
    using dotCount_removeDot [OF ch] m n assms(2) by (simp split: if_splits)
qed

lemma processInput_dots:
  assumes "processInput received s = Inr s'" and "numDots s = int (dotCount (maze s))"
  shows "numDots s' = int (dotCount (maze s'))"
proof (cases received)
  case None
  with assms show ?thesis by (simp add: processInput_def)
next
  case (Some inp)
  let ?s0 = "if inp = ''ESC'' then s\<lparr>lives := 0\<rparr> else s"
  have "movePlayer inp ?s0 = Inr s'"
    using assms(1) Some by (simp add: processInput_def)
  moreover have "numDots ?s0 = int (dotCount (maze ?s0))"
    using assms(2) by simp
  ultimately show ?thesis by (rule movePlayer_dots)
qed

lemma moveGhost_frame:
  assumes "moveGhost rnd i s = Inr s'"
  shows "maze s' = maze s \<and> numDots s' = numDots s \<and> score s' = score s \<and> lives s' = lives s
     \<and> player s' = player s \<and> readLocks s' = readLocks s \<and> length (ghosts s') = length (ghosts s)"
proof -
  obtain r c where "makeMove (maze s) (row (position (ghosts s ! i))) (col (position (ghosts s ! i)))
       (drawDirection (rnd i)) = Inr (r, c)"
    using assms
    by (cases "makeMove (maze s) (row (position (ghosts s ! i))) (col (position (ghosts s ! i)))
       (drawDirection (rnd i))") (auto simp: moveGhost_def Let_def)
  with assms show ?thesis by (auto simp: moveGhost_def Let_def)
qed

lemma collide_frame:
  assumes "collide i s = Inr s'"
  shows "maze s' = maze s \<and> numDots s' = numDots s \<and> score s' = score s"
  using assms
  by (auto simp: collide_def updateGhosts_def RLock_def RUnlock_def Let_def split: if_splits)

lemma processPill_arm_frame:
  assumes "processPill_arm j s = Inr s'"
  shows "maze s' = maze s \<and> numDots s' = numDots s \<and> score s' = score s \<and> lives s' = lives s
     \<and> player s' = player s"
  using assms
  by (auto simp: processPill_arm_def updateGhosts_def Let_def split: if_splits)

lemma timerFires_frame:
  assumes "timerFires n s = Inr s'"
  shows "maze s' = maze s \<and> numDots s' = numDots s \<and> score s' = score s \<and> lives s' = lives s
     \<and> player s' = player s \<and> ghosts s' = ghosts s"
  using assms
  by (auto simp: timerFires_def split: if_splits)

lemma processPill_receive_frame:
  assumes "processPill_receive j s = Inr s'"
  shows "maze s' = maze s \<and> numDots s' = numDots s \<and> score s' = score s \<and> lives s' = lives s
     \<and> player s' = player s \<and> ghosts s' = ghosts s"
  using assms
  by (auto simp: processPill_receive_def split: if_splits pillTask.splits)

lemma processPill_expire_frame:
  assumes "processPill_expire j s = Inr s'"
  shows "maze s' = maze s \<and> numDots s' = numDots s \<and> score s' = score s \<and> lives s' = lives s
     \<and> player s' = player s"
  using assms
  by (auto simp: processPill_expire_def updateGhosts_def Let_def split: if_splits option.splits)

lemma reachable_dots: "reachable s \<Longrightarrow> numDots s = int (dotCount (maze s))"
proof (induction rule: reachable.induct)
  case (loaded lines s)
  then show ?case by (rule loadMaze_dots)
next
  case (input s received s')
  then show ?case using processInput_dots by blast
next
  case (ghost s rnd i s')
  then show ?case using moveGhost_frame [of rnd i s s'] by simp
next
  case (collision s i s')
  then show ?case using collide_frame [of i s s'] by simp
next
  case (screen s)
  then show ?case by (simp add: printScreen_def RLock_def RUnlock_def)
next
  case (sleep s)
  then show ?case by simp
next
  case (arm s j s')
  then show ?case using processPill_arm_frame [of j s s'] by simp
next
  case (fire s n s')
  then show ?case using timerFires_frame [of n s s'] by simp
next
  case (receive s j s')
  then show ?case using processPill_receive_frame [of j s s'] by simp
next
  case (expire s j s')
  then show ?case using processPill_expire_frame [of j s s'] by simp
qed

text \<open>
  Claim C5 (dot accounting).  In every reachable state the counter \<open>numDots\<close> equals
  the number of dot cells in the maze, so it is never negative and is zero exactly when no
  dot cell is left.  A move of the player that ends on a dot cell lowers the counter and
  the number of dot cells by one and adds one to the score; a move that ends on a pill
  cell leaves the counter and the number of dot cells as they are.
\<close>

theorem dot_accounting:
  assumes "reachable s"
  shows "numDots s = int (dotCount (maze s)) \<and> 0 \<le> numDots s \<and>
         (numDots s = 0 \<longleftrightarrow> dotCount (maze s) = 0) \<and>
         (\<forall>dir s'. movePlayer dir s = Inr s' \<longrightarrow>
            (\<exists>ch. cellAt (maze s) (row (player s')) (col (player s')) = Inr ch \<and>
               (ch = CHR ''.'' \<longrightarrow> numDots s' = numDots s - 1 \<and> score s' = score s + 1 \<and>
                    dotCount (maze s') + 1 = dotCount (maze s)) \<and>
               (ch = CHR ''X'' \<longrightarrow> numDots s' = numDots s \<and>
                    dotCount (maze s') = dotCount (maze s)) \<and>
               numDots s' = int (dotCount (maze s'))))"
proof -
  have inv: "numDots s = int (dotCount (maze s))"
    using assms by (rule reachable_dots)
  have step: "\<exists>ch. cellAt (maze s) (row (player s')) (col (player s')) = Inr ch \<and>
               (ch = CHR ''.'' \<longrightarrow> numDots s' = numDots s - 1 \<and> score s' = score s + 1 \<and>
                    dotCount (maze s') + 1 = dotCount (maze s)) \<and>
               (ch = CHR ''X'' \<longrightarrow> numDots s' = numDots s \<and>
                    dotCount (maze s') = dotCount (maze s)) \<and>
               numDots s' = int (dotCount (maze s'))"
    if mv: "movePlayer dir s = Inr s'" for dir s'
  proof -
    obtain ch where ch: "cellAt (maze s) (row (player s')) (col (player s')) = Inr ch"
      and m: "maze s' = (if ch = CHR ''.'' \<or> ch = CHR ''X''
                      then removeDot (row (player s')) (col (player s')) (maze s) else maze s)"
      and n: "numDots s' = (if ch = CHR ''.'' then numDots s - 1 else numDots s)"
      and sc: "score s' = (if ch = CHR ''.'' then score s + 1
                           else if ch = CHR ''X'' then score s + 10 else score s)"
      using movePlayer_effect [OF mv] by blast
    have "numDots s' = int (dotCount (maze s'))"
      using movePlayer_dots [OF mv inv] .
    moreover have "ch = CHR ''.'' \<longrightarrow> numDots s' = numDots s - 1 \<and> score s' = score s + 1 \<and>
                    dotCount (maze s') + 1 = dotCount (maze s)"
      using dotCount_removeDot [OF ch] m n sc by auto
    moreover have "ch = CHR ''X'' \<longrightarrow> numDots s' = numDots s \<and>
                    dotCount (maze s') = dotCount (maze s)"
      using dotCount_removeDot [OF ch] m n by auto
    ultimately show ?thesis using ch by blast
  qed
  from inv have "0 \<le> numDots s" and "numDots s = 0 \<longleftrightarrow> dotCount (maze s) = 0"
    by simp_all
  with inv step show ?thesis by blast
qed

text \<open>
  The theorem at the corridor as loaded from its file: one dot, counter 1; the move to
  the right eats the dot and the counter is 0, with no dot cell left.
\<close>

theorem dot_accounting_witness:
  "reachable dotExample \<and> numDots dotExample = 1 \<and> dotCount (maze dotExample) = 1 \<and>
   movePlayer ''RIGHT'' dotExample = Inr dotExampleEaten \<and>
   numDots dotExampleEaten = 0 \<and> dotCount (maze dotExampleEaten) = 0 \<and>
   score dotExampleEaten = score dotExample + 1"
proof -
  have r: "reachable dotExample"
    by (rule reachable.loaded [of "[''#####'', ''#P.X#'', ''#####'']"])
       (simp add: run_defs dotExample_def)
  have mv: "movePlayer ''RIGHT'' dotExample = Inr dotExampleEaten"
    by (simp add: run_defs dotExample_def dotExampleEaten_def)
  have n: "numDots dotExample = 1"
    by (simp add: dotExample_def)
  have c: "cellAt (maze dotExample) (row (player dotExampleEaten)) (col (player dotExampleEaten))
      = Inr (CHR ''.'')"
    by (simp add: cellAt_def dotExample_def dotExampleEaten_def)
  from dot_accounting [OF r] have inv: "numDots dotExample = int (dotCount (maze dotExample))"
    and step: "\<exists>ch. cellAt (maze dotExample) (row (player dotExampleEaten))
                 (col (player dotExampleEaten)) = Inr ch \<and>
               (ch = CHR ''.'' \<longrightarrow> numDots dotExampleEaten = numDots dotExample - 1 \<and>
                    score dotExampleEaten = score dotExample + 1 \<and>
                    dotCount (maze dotExampleEaten) + 1 = dotCount (maze dotExample)) \<and>
               (ch = CHR ''X'' \<longrightarrow> numDots dotExampleEaten = numDots dotExample \<and>
                    dotCount (maze dotExampleEaten) = dotCount (maze dotExample)) \<and>
               numDots dotExampleEaten = int (dotCount (maze dotExampleEaten))"
    using mv by blast+
  from step c have "numDots dotExampleEaten = numDots dotExample - 1"
    and "score dotExampleEaten = score dotExample + 1"
    and "dotCount (maze dotExampleEaten) + 1 = dotCount (maze dotExample)"
    by auto
  with r mv n inv show ?thesis by simp
qed

section \<open>The exit of the simulation loop\<close>





section \<open>Read errors and the Escape command\<close>

lemma removeDot_lengths:
  assumes "cellAt mz r c = Inr ch"
  shows "map length (removeDot r c mz) = map length mz"
proof -
  from assms have r: "nat r < length mz" and c: "nat c < length (mz ! nat r)"
    by (auto simp: cellAt_def split: if_splits)
  have "length (take (nat c) (mz ! nat r) @ '' '' @ drop (nat c + 1) (mz ! nat r)) = length (mz ! nat r)"
    using c by simp
  then show ?thesis
    using r by (simp add: removeDot_def map_update list_update_same_conv)
qed

lemma same_shape:
  assumes "map length mz' = map length mz"
  shows "rectangular mz' = rectangular mz" and "inBounds mz' r c = inBounds mz r c"
proof -
  have len: "length mz' = length mz"
    using assms by (metis length_map)
  have nth: "length (mz' ! i) = length (mz ! i)" if "i < length mz" for i
    using assms that len by (metis nth_map)
  have hd: "length (hd mz') = length (hd mz)" if "mz \<noteq> []"
    using nth [of 0] that len by (cases mz; cases mz') auto
  show "rectangular mz' = rectangular mz"
    using len nth hd by (cases "mz = []") (auto simp: rectangular_def list_all_length)
  show "inBounds mz' r c = inBounds mz r c"
    using len hd by (cases "mz = []") (auto simp: inBounds_def)
qed

lemma makeMove_total:
  assumes "rectangular mz" and "inBounds mz r c"
  shows "\<exists>r' c'. makeMove mz r c dir = Inr (r', c') \<and> inBounds mz r' c'"
proof -
  obtain r' c' where w: "makeMove_wrap mz r c dir = Inr (r', c')" and b: "inBounds mz r' c'"
    using makeMove_wrap_total [OF assms(2)] by blast
  show ?thesis
    using assms(2) b by (auto simp: makeMove_def w cellAt_inBounds [OF assms(1) b])
qed

lemma movePlayer_total:
  assumes "rectangular (maze s)" and "inBounds (maze s) (row (player s)) (col (player s))"
  shows "\<exists>s'. movePlayer dir s = Inr s' \<and> map length (maze s') = map length (maze s) \<and>
           ghosts s' = ghosts s \<and> lives s' = lives s \<and> readLocks s' = readLocks s"
proof -
  obtain r c where mv: "makeMove (maze s) (row (player s)) (col (player s)) dir = Inr (r, c)"
    and b: "inBounds (maze s) r c"
    using makeMove_total [OF assms] by blast
  have ch: "cellAt (maze s) r c = Inr (maze s ! nat r ! nat c)"
    using cellAt_inBounds [OF assms(1) b] .
  show ?thesis
    using removeDot_lengths [OF ch]
    by (simp add: movePlayer_def mv ch Let_def)
qed

lemma ghostsInBounds_update:
  "ghostsInBounds mz gs \<Longrightarrow> inBounds mz (row (position g)) (col (position g)) \<Longrightarrow>
   ghostsInBounds mz (gs[i := g])"
  unfolding ghostsInBounds_def list_all_iff
  using set_update_subset_insert [of gs i g] by auto

lemma moveGhost_total:
  assumes "rectangular (maze s)" and "ghostsInBounds (maze s) (ghosts s)" and "i < length (ghosts s)"
  shows "\<exists>s'. moveGhost rnd i s = Inr s' \<and> maze s' = maze s \<and>
           ghostsInBounds (maze s') (ghosts s') \<and> length (ghosts s') = length (ghosts s) \<and>
           lives s' = lives s \<and> readLocks s' = readLocks s \<and> numDots s' = numDots s"
proof -
  let ?g = "ghosts s ! i"
  have b: "inBounds (maze s) (row (position ?g)) (col (position ?g))"
    using assms(2,3) by (simp add: ghostsInBounds_def list_all_length)
  obtain r c where mv: "makeMove (maze s) (row (position ?g)) (col (position ?g))
       (drawDirection (rnd i)) = Inr (r, c)" and b': "inBounds (maze s) r c"
    using makeMove_total [OF assms(1) b] by blast
  show ?thesis
    using ghostsInBounds_update [OF assms(2), of "?g\<lparr>position := (position ?g)\<lparr>row := r, col := c\<rparr>\<rparr>" i] b'
    by (simp add: moveGhost_def mv Let_def)
qed

lemma moveGhostsFrom_total:
  assumes "rectangular (maze s)" and "ghostsInBounds (maze s) (ghosts s)"
    and "\<forall>j \<in> set js. j < length (ghosts s)"
  shows "\<exists>s'. moveGhostsFrom rnd js s = Inr s' \<and> maze s' = maze s \<and>
           lives s' = lives s \<and> readLocks s' = readLocks s \<and> numDots s' = numDots s"
  using assms
proof (induction js arbitrary: s)
  case Nil
  then show ?case by simp
next
  case (Cons j js)
  from Cons.prems obtain s1 where s1: "moveGhost rnd j s = Inr s1" "maze s1 = maze s"
    "ghostsInBounds (maze s1) (ghosts s1)" "length (ghosts s1) = length (ghosts s)"
    "lives s1 = lives s" "readLocks s1 = readLocks s" "numDots s1 = numDots s"
    using moveGhost_total [of s j rnd] by auto
  from Cons.prems s1 have "\<exists>s'. moveGhostsFrom rnd js s1 = Inr s' \<and> maze s' = maze s1 \<and>
           lives s' = lives s1 \<and> readLocks s' = readLocks s1 \<and> numDots s' = numDots s1"
    by (intro Cons.IH) auto
  with s1 show ?case by auto
qed

lemma collide_dead:
  assumes "lives s \<le> 0" and "readLocks s = 0"
  shows "\<exists>s'. collide i s = Inr s' \<and> lives s' \<le> 0 \<and> readLocks s' = 0 \<and> numDots s' = numDots s"
  using assms
  by (cases "status (ghosts s ! i)")
     (auto simp: collide_def updateGhosts_def RLock_def RUnlock_def Let_def)

lemma collideFrom_dead:
  assumes "lives s \<le> 0" and "readLocks s = 0"
  shows "\<exists>s'. collideFrom js s = Inr s' \<and> lives s' \<le> 0 \<and> readLocks s' = 0 \<and> numDots s' = numDots s"
  using assms
proof (induction js arbitrary: s)
  case Nil
  then show ?case by simp
next
  case (Cons j js)
  from collide_dead [OF Cons.prems, of j] obtain s1 where
    s1: "collide j s = Inr s1" "lives s1 \<le> 0" "readLocks s1 = 0" "numDots s1 = numDots s"
    by blast
  from Cons.IH [OF s1(2,3)] s1 show ?case by auto
qed


lemma reader_error: "readerIteration buffer (Some e) = [''ESC'', []]"
  by (simp add: readerIteration_def readInput_def)

text \<open>
  On a read error the reader goroutine sends \<open>ESC\<close> on the channel, then the empty
  command that \<open>readInput\<close> returned with the error, and goes on with the next read.
  When the loop receives \<open>ESC\<close> in a state whose positions are within a rectangular
  grid, with no read lock held, it sets the lives to zero before the move; the tick
  completes with the lives at zero or below, and the loop leaves through its \<open>break\<close>
  at the end of that tick.
\<close>

lemma escape_in_bounds_ends_game:
  assumes "rectangular (maze s)"
    and "inBounds (maze s) (row (player s)) (col (player s))"
    and "ghostsInBounds (maze s) (ghosts s)"
    and "readLocks s = 0"
  shows "readerIteration buffer (Some e) = [''ESC'', []] \<and>
         reader ((buffer, Some e) # rest) = ''ESC'' # [] # reader rest \<and>
         (\<exists>s1. processInput (Some ''ESC'') s = Inr s1 \<and> lives s1 = 0) \<and>
         (\<exists>s'. tick (Some ''ESC'') rnd s = Inr s' \<and> lives s' \<le> 0 \<and>
               gameLoop ((Some ''ESC'', rnd) # ticks) s = Exited s')"
proof -
  let ?s0 = "s\<lparr>lives := 0\<rparr>"
  obtain s1 where s1: "movePlayer ''ESC'' ?s0 = Inr s1"
    and shape: "map length (maze s1) = map length (maze s)"
    and g1: "ghosts s1 = ghosts s" and l1: "lives s1 = 0" and k1: "readLocks s1 = 0"
    using movePlayer_total [of ?s0 "''ESC''"] assms by auto
  have p: "processInput (Some ''ESC'') s = Inr s1"
    using s1 by (simp add: processInput_def)
  have r1: "rectangular (maze s1)"
    using same_shape(1) [OF shape] assms(1) by simp
  have b1: "ghostsInBounds (maze s1) (ghosts s1)"
    using assms(3) g1 by (simp add: ghostsInBounds_def same_shape(2) [OF shape])
  obtain s2 where s2: "moveGhosts rnd s1 = Inr s2" and l2: "lives s2 = 0" and k2: "readLocks s2 = 0"
    using moveGhostsFrom_total [OF r1 b1, of "[0..<length (ghosts s1)]" rnd] l1 k1
    by (auto simp: moveGhosts_def)
  obtain s3 where s3: "collisions s2 = Inr s3" and l3: "lives s3 \<le> 0"
    using collideFrom_dead [of s2 "[0..<length (ghosts s2)]"] l2 k2
    by (auto simp: collisions_def)
  have t: "tick (Some ''ESC'') rnd s = Inr (printScreen s3)"
    by (simp add: tick_def p s2 s3)
  have l4: "lives (printScreen s3) \<le> 0"
    using l3 by (simp add: printScreen_def RLock_def RUnlock_def)
  have "gameLoop ((Some ''ESC'', rnd) # ticks) s = Exited (printScreen s3)"
    using t l4 by (simp add: gameOver_def)
  with t l4 p l1 show ?thesis
    by (auto simp: reader_error)
qed

text \<open>
  For example, with the ghost stepping onto the player in the tick of the Escape the
  lives go from 0 to -1 and the loop leaves.  The reader turns a failed read followed by
  an unknown key into \<open>ESC\<close> and two empty commands.
\<close>

lemma escape_in_bounds_example:
  "rectangular (maze escExample) \<and>
   inBounds (maze escExample) (row (player escExample)) (col (player escExample)) \<and>
   ghostsInBounds (maze escExample) (ghosts escExample) \<and>
   readLocks escExample = 0 \<and>
   reader [([], Some ''EOF''), (''A'', None)] = [''ESC'', [], []] \<and>
   tick (Some ''ESC'') (constantDraw 3) escExample = Inr escExampleEnd \<and>
   lives escExampleEnd \<le> 0 \<and>
   gameLoop [(Some ''ESC'', constantDraw 3)] escExample = Exited escExampleEnd"
proof -
  have h1: "rectangular (maze escExample)"
    by (simp add: escExample_def rectangular_def)
  have h2: "inBounds (maze escExample) (row (player escExample)) (col (player escExample))"
    by (simp add: escExample_def inBounds_def)
  have h3: "ghostsInBounds (maze escExample) (ghosts escExample)"
    by (simp add: escExample_def ghostsInBounds_def inBounds_def)
  have h4: "readLocks escExample = 0"
    by (simp add: escExample_def)
  have t: "tick (Some ''ESC'') (constantDraw 3) escExample = Inr escExampleEnd"
    by (simp add: run_defs escExample_def escExampleEnd_def)
  from escape_in_bounds_ends_game [OF h1 h2 h3 h4, of "[]" "''EOF''" "[(''A'', None)]" "constantDraw 3" "[]"]
  have r: "reader [([], Some ''EOF''), (''A'', None)] = ''ESC'' # [] # reader [(''A'', None)]"
    and g: "\<exists>s'. tick (Some ''ESC'') (constantDraw 3) escExample = Inr s' \<and> lives s' \<le> 0 \<and>
               gameLoop [(Some ''ESC'', constantDraw 3)] escExample = Exited s'"
    by blast+
  from g t have "lives escExampleEnd \<le> 0"
    and "gameLoop [(Some ''ESC'', constantDraw 3)] escExample = Exited escExampleEnd"
    by auto
  moreover have "reader [([], Some ''EOF''), (''A'', None)] = [''ESC'', [], []]"
    using r by (simp add: readerIteration_def readInput_def byteAt_def)
  ultimately show ?thesis using h1 h2 h3 h4 t by simp
qed

text \<open>
  Claim C9 at a failing input.  In a grid three columns wide the player starts in row 3.
  It moves up onto the ghost coming down, loses a life and is put back on row 3,
  column 3, the start row written to both coordinates: a column that the grid does not
  have.  In the next tick the loop receives \<open>ESC\<close>: it sets the lives to zero, and the
  move that follows reads the maze at the player's position and panics.  The tick does
  not reach the test before the \<open>break\<close>.
\<close>

theorem escape_after_respawn_panics:
  "loadMaze (Some [''###'', ''#G#'', ''#.#'', ''#P#'', ''#.#'', ''###'']) initial =
     Inr \<lparr>maze = [''###'', ''#G#'', ''#.#'', ''#P#'', ''#.#'', ''###''],
           player = \<lparr>row = 3, col = 1, startRow = 3, startCol = 1\<rparr>,
           ghosts = [\<lparr>position = \<lparr>row = 1, col = 1, startRow = 1, startCol = 1\<rparr>,
                      status = GhostStatusNormal\<rparr>],
           score = 0, numDots = 2, lives = 3, pillTimer = None, timers = [],
           readLocks = 0, pillTasks = [], slept = 0\<rparr> \<and>
   gameLoop [(Some ''UP'', constantDraw 1)]
     \<lparr>maze = [''###'', ''#G#'', ''#.#'', ''#P#'', ''#.#'', ''###''],
       player = \<lparr>row = 3, col = 1, startRow = 3, startCol = 1\<rparr>,
       ghosts = [\<lparr>position = \<lparr>row = 1, col = 1, startRow = 1, startCol = 1\<rparr>,
                  status = GhostStatusNormal\<rparr>],
       score = 0, numDots = 2, lives = 3, pillTimer = None, timers = [],
       readLocks = 0, pillTasks = [], slept = 0\<rparr> =
     Running \<lparr>maze = [''###'', ''#G#'', ''# #'', ''#P#'', ''#.#'', ''###''],
           player = \<lparr>row = 3, col = 3, startRow = 3, startCol = 1\<rparr>,
           ghosts = [\<lparr>position = \<lparr>row = 2, col = 1, startRow = 1, startCol = 1\<rparr>,
                      status = GhostStatusNormal\<rparr>],
           score = 1, numDots = 1, lives = 2, pillTimer = None, timers = [],
           readLocks = 0, pillTasks = [], slept = 1150\<rparr> \<and>
   tick (Some ''ESC'') (constantDraw 0)
     \<lparr>maze = [''###'', ''#G#'', ''# #'', ''#P#'', ''#.#'', ''###''],
       player = \<lparr>row = 3, col = 3, startRow = 3, startCol = 1\<rparr>,
       ghosts = [\<lparr>position = \<lparr>row = 2, col = 1, startRow = 1, startCol = 1\<rparr>,
                  status = GhostStatusNormal\<rparr>],
       score = 1, numDots = 1, lives = 2, pillTimer = None, timers = [],
       readLocks = 0, pillTasks = [], slept = 1150\<rparr> = Inl IndexOutOfRange \<and>
   gameLoop [(Some ''UP'', constantDraw 1), (Some ''ESC'', constantDraw 0)]
     \<lparr>maze = [''###'', ''#G#'', ''#.#'', ''#P#'', ''#.#'', ''###''],
       player = \<lparr>row = 3, col = 1, startRow = 3, startCol = 1\<rparr>,
       ghosts = [\<lparr>position = \<lparr>row = 1, col = 1, startRow = 1, startCol = 1\<rparr>,
                  status = GhostStatusNormal\<rparr>],
       score = 0, numDots = 2, lives = 3, pillTimer = None, timers = [],
       readLocks = 0, pillTasks = [], slept = 0\<rparr> = Crashed IndexOutOfRange"
  by (simp add: run_defs)

section \<open>The pill and the status of the ghosts\<close>

lemma setStatus_length [simp]: "length (setStatus idxs st gs) = length gs"
  by (induction idxs arbitrary: gs) auto














section \<open>Eating a second pill as the first timer fires\<close>

text \<open>
  Claim C4 at a failing schedule.  The player eats the first pill; goroutine 0 turns the
  ghost blue, makes timer 0 and waits for it.  In a later tick the player eats the second
  pill, which starts goroutine 1, just as timer 0 falls due: goroutine 0 receives from the
  channel, but goroutine 1 gets \<open>pillMx\<close> first.  Goroutine 1 calls \<open>Stop\<close> on
  timer 0, too late to have an effect, makes timer 1 and waits for it.  Goroutine 0 then
  runs its second critical section: it stops the timer that \<open>pillTimer\<close> points to,
  which is now timer 1, and makes the ghost normal.  The expiry of the replaced timer has
  taken effect after the replacement; the new timer will never fire, and goroutine 1
  waits for ever.
\<close>

theorem stale_expiry_stops_fresh_timer:
  "andThen (andThen (andThen (loadMaze (Some [''#######'', ''#PXX.G#'', ''#######'']) initial)
      (tick (Some ''RIGHT'') (constantDraw 0))) (processPill_arm 0)) (tick (Some ''RIGHT'') (constantDraw 0)) =
     Inr \<lparr>maze = [''#######'', ''#P  .G#'', ''#######''],
           player = \<lparr>row = 1, col = 3, startRow = 1, startCol = 1\<rparr>,
           ghosts = [\<lparr>position = \<lparr>row = 1, col = 5, startRow = 1, startCol = 5\<rparr>,
                      status = GhostStatusBlue\<rparr>],
           score = 20, numDots = 1, lives = 3, pillTimer = Some 0, timers = [TimerRunning],
           readLocks = 0, pillTasks = [Waiting 0, Started], slept = 0\<rparr> \<and>
   andThen (andThen (andThen (timerFires 0
     \<lparr>maze = [''#######'', ''#P  .G#'', ''#######''],
       player = \<lparr>row = 1, col = 3, startRow = 1, startCol = 1\<rparr>,
       ghosts = [\<lparr>position = \<lparr>row = 1, col = 5, startRow = 1, startCol = 5\<rparr>,
                  status = GhostStatusBlue\<rparr>],
       score = 20, numDots = 1, lives = 3, pillTimer = Some 0, timers = [TimerRunning],
       readLocks = 0, pillTasks = [Waiting 0, Started], slept = 0\<rparr>)
      (processPill_receive 0)) (processPill_arm 1)) (processPill_expire 0) =
     Inr \<lparr>maze = [''#######'', ''#P  .G#'', ''#######''],
           player = \<lparr>row = 1, col = 3, startRow = 1, startCol = 1\<rparr>,
           ghosts = [\<lparr>position = \<lparr>row = 1, col = 5, startRow = 1, startCol = 5\<rparr>,
                      status = GhostStatusNormal\<rparr>],
           score = 20, numDots = 1, lives = 3, pillTimer = Some 1,
           timers = [TimerFired, TimerStopped],
           readLocks = 0, pillTasks = [Finished, Waiting 1], slept = 0\<rparr> \<and>
   timerFires 1
     \<lparr>maze = [''#######'', ''#P  .G#'', ''#######''],
       player = \<lparr>row = 1, col = 3, startRow = 1, startCol = 1\<rparr>,
       ghosts = [\<lparr>position = \<lparr>row = 1, col = 5, startRow = 1, startCol = 5\<rparr>,
                  status = GhostStatusNormal\<rparr>],
       score = 20, numDots = 1, lives = 3, pillTimer = Some 1,
       timers = [TimerFired, TimerStopped],
       readLocks = 0, pillTasks = [Finished, Waiting 1], slept = 0\<rparr> = Inl NotEnabled \<and>
   processPill_receive 1
     \<lparr>maze = [''#######'', ''#P  .G#'', ''#######''],
       player = \<lparr>row = 1, col = 3, startRow = 1, startCol = 1\<rparr>,
       ghosts = [\<lparr>position = \<lparr>row = 1, col = 5, startRow = 1, startCol = 5\<rparr>,
                  status = GhostStatusNormal\<rparr>],
       score = 20, numDots = 1, lives = 3, pillTimer = Some 1,
       timers = [TimerFired, TimerStopped],
       readLocks = 0, pillTasks = [Finished, Waiting 1], slept = 0\<rparr> = Inl NotEnabled"
  by (simp add: run_defs)

end
